theory Spec2Isabelle
  imports Complex_Main "HOL-Library.Sublist"
begin

section \<open>Values of the Python program\<close>

text \<open>
  \<^verbatim>\<open>omniweb_visualizer.py\<close> is a script over a pandas DataFrame. The cells of the frame,
  the values of a click event and the labels of the plot are Python scalars. A
  \<open>float64\<close> is NaN, an infinity or a finite number; the finite numbers are modelled by
  the reals they denote, which is exact for the comparisons the script performs (it does no
  floating-point arithmetic on them). A pandas Timestamp is kept to the minute, the
  resolution of the format \<^verbatim>\<open>%Y-%j-%H-%M\<close>; \<open>TimeV None\<close> is NaT.
\<close>

record timestamp =
  ts_year :: nat
  ts_month :: nat
  ts_day :: nat
  ts_hour :: nat
  ts_minute :: nat

datatype float64 = NaN | NegInf | Fin real | PosInf

datatype pyval = NoneV | IntV int | FloatV float64 | StrV string | TimeV "timestamp option"

datatype exn =
    KeyError string
  | IndexError string
  | TypeError string
  | ValueError string
  | OverflowError string
  | AttributeError string
  | LibraryError string

text \<open>Sequencing of computations that may raise: the first exception wins.\<close>

definition and_then :: "exn + 'a \<Rightarrow> ('a \<Rightarrow> exn + 'b) \<Rightarrow> exn + 'b" where
  "and_then m f = (case m of Inl e \<Rightarrow> Inl e | Inr v \<Rightarrow> f v)"

text \<open>\<^verbatim>\<open>d[k]\<close> on a dict, kept as an association list.\<close>

definition getitem :: "(string \<times> 'a) list \<Rightarrow> string \<Rightarrow> exn + 'a" where
  "getitem d k = (case map_of d k of None \<Rightarrow> Inl (KeyError k) | Some v \<Rightarrow> Inr v)"

subsection \<open>\<^verbatim>\<open>str()\<close>\<close>

definition digit_char :: "nat \<Rightarrow> char" where
  "digit_char d = ''0123456789'' ! d"

fun nat_str :: "nat \<Rightarrow> string" where
  "nat_str n =
     (if n < 10 then [digit_char n]
      else nat_str (n div 10) @ [digit_char (n mod 10)])"

declare nat_str.simps [simp del]

definition int_str :: "int \<Rightarrow> string" where
  "int_str i = (if i < 0 then CHR ''-'' # nat_str (nat (- i)) else nat_str (nat i))"

text \<open>
  Zero padding of \<^verbatim>\<open>strftime\<close> fields (\<^verbatim>\<open>%Y\<close> to four digits, the others to two).
\<close>

definition zfill :: "nat \<Rightarrow> string \<Rightarrow> string" where
  "zfill w s = replicate (w - length s) CHR ''0'' @ s"

text \<open>
  \<^verbatim>\<open>str\<close> of a float. An integral value below \<open>10^16\<close> in magnitude prints as its digits
  followed by \<^verbatim>\<open>.0\<close>. Every other finite value prints as the shortest decimal that reads
  back to the same double, in positional or exponent notation; that digit generation is the
  interpreter's and is taken as the parameter \<open>frepr\<close>.
\<close>

definition float_str :: "(real \<Rightarrow> string) \<Rightarrow> float64 \<Rightarrow> string" where
  "float_str frepr x =
     (case x of
        NaN \<Rightarrow> ''nan''
      | PosInf \<Rightarrow> ''inf''
      | NegInf \<Rightarrow> ''-inf''
      | Fin r \<Rightarrow>
          if r = of_int \<lfloor>r\<rfloor> \<and> \<bar>r\<bar> < 10 ^ 16 then int_str \<lfloor>r\<rfloor> @ ''.0'' else frepr r)"

definition strftime :: "timestamp \<Rightarrow> string" where
  \<comment> \<open>\<^verbatim>\<open>strftime('%Y-%m-%d %H:%M')\<close>\<close>
  "strftime t =
     zfill 4 (nat_str (ts_year t)) @ ''-'' @ zfill 2 (nat_str (ts_month t)) @ ''-'' @
     zfill 2 (nat_str (ts_day t)) @ '' '' @ zfill 2 (nat_str (ts_hour t)) @ '':'' @
     zfill 2 (nat_str (ts_minute t))"

fun py_str :: "(real \<Rightarrow> string) \<Rightarrow> pyval \<Rightarrow> string" where
  "py_str frepr NoneV = ''None''"
| "py_str frepr (IntV i) = int_str i"
| "py_str frepr (FloatV x) = float_str frepr x"
| "py_str frepr (StrV s) = s"
| "py_str frepr (TimeV None) = ''NaT''"
| "py_str frepr (TimeV (Some t)) = strftime t @ '':00''"

section \<open>The DataFrame\<close>

text \<open>
  A DataFrame is its column labels and its rows, each row holding one cell per column
  (pandas keeps frames rectangular, so a cell is never read outside its row).
  \<^verbatim>\<open>pd.DataFrame()\<close> has neither columns nor rows, and \<^verbatim>\<open>.empty\<close> holds when either
  axis has length zero.
\<close>

record frame =
  columns :: "string list"
  rows :: "pyval list list"

definition empty_frame :: frame where
  "empty_frame = \<lparr>columns = [], rows = []\<rparr>"

definition df_empty :: "frame \<Rightarrow> bool" where
  "df_empty df = (columns df = [] \<or> rows df = [])"

fun index_of :: "string \<Rightarrow> string list \<Rightarrow> nat option" where
  "index_of k [] = None"
| "index_of k (c # cs) = (if c = k then Some 0 else map_option Suc (index_of k cs))"

text \<open>\<^verbatim>\<open>df[name]\<close>: the cells of one column, in row order, or KeyError.\<close>

definition col :: "frame \<Rightarrow> string \<Rightarrow> exn + pyval list" where
  "col df name =
     (case index_of name (columns df) of
        None \<Rightarrow> Inl (KeyError name)
      | Some i \<Rightarrow> Inr (map (\<lambda>r. r ! i) (rows df)))"

text \<open>\<^verbatim>\<open>df[mask]\<close> with a boolean mask: the rows whose mask entry is true, in order.\<close>

definition bool_index :: "frame \<Rightarrow> bool list \<Rightarrow> frame" where
  "bool_index df keep = df\<lparr>rows := map fst (filter snd (zip (rows df) keep))\<rparr>"

subsection \<open>Column types and the conversion to \<^verbatim>\<open>float64\<close>\<close>

text \<open>
  A column read from the file is \<^verbatim>\<open>int64\<close> when every cell is an integer; one missing
  or fractional cell makes the whole column \<^verbatim>\<open>float64\<close>; any other column holds objects.
  Where an integer meets a float, in a \<^verbatim>\<open>float64\<close> column or in a comparison with a float,
  it is converted to the nearest \<^verbatim>\<open>float64\<close>, ties going to the even significand: an
  integer of more than 53 bits loses its low bits. (The exponent range of \<^verbatim>\<open>float64\<close> is not
  modelled; an \<^verbatim>\<open>int64\<close> is far inside it.)
\<close>

datatype dtype = Int64 | Float64 | Object

fun bit_length :: "nat \<Rightarrow> nat" where
  "bit_length n = (if n = 0 then 0 else Suc (bit_length (n div 2)))"

declare bit_length.simps [simp del]

definition round_53 :: "nat \<Rightarrow> nat" where
  "round_53 n =
     (if bit_length n \<le> 53 then n
      else
        let k = 2 ^ (bit_length n - 53); q = n div k; r = n mod k
        in (if k < 2 * r \<or> (2 * r = k \<and> odd q) then q + 1 else q) * k)"

definition f64_of_int :: "int \<Rightarrow> real" where
  "f64_of_int i = (if i < 0 then - real (round_53 (nat (- i))) else real (round_53 (nat i)))"

fun to_float :: "pyval \<Rightarrow> float64 option" where
  "to_float (IntV i) = Some (Fin (f64_of_int i))"
| "to_float (FloatV x) = Some x"
| "to_float _ = None"

fun is_int :: "pyval \<Rightarrow> bool" where
  "is_int (IntV _) = True"
| "is_int _ = False"

fun is_time :: "pyval \<Rightarrow> bool" where
  "is_time (TimeV _) = True"
| "is_time _ = False"

fun is_str :: "pyval \<Rightarrow> bool" where
  "is_str (StrV _) = True"
| "is_str _ = False"

definition is_number :: "pyval \<Rightarrow> bool" where
  "is_number v = (to_float v \<noteq> None)"

definition dtype_of :: "pyval list \<Rightarrow> dtype" where
  "dtype_of c =
     (if list_all is_int c then Int64 else if list_all is_number c then Float64 else Object)"

subsection \<open>Elementwise comparison\<close>

text \<open>
  A column is compared with a scalar cell by cell. In an \<^verbatim>\<open>int64\<close> column an integer
  scalar is compared exactly, and a float scalar after the cell is converted to
  \<^verbatim>\<open>float64\<close>; in a \<^verbatim>\<open>float64\<close> column both sides are \<^verbatim>\<open>float64\<close>. In a column of
  objects the cells are compared as Python values: two numbers by their exact values, two
  texts by their code points. Every comparison with NaN is false. \<^verbatim>\<open><=\<close> between values
  of different kinds raises TypeError; \<^verbatim>\<open>==\<close> is then false.
\<close>

fun float_eq :: "float64 \<Rightarrow> float64 \<Rightarrow> bool" where
  "float_eq NaN _ = False"
| "float_eq _ NaN = False"
| "float_eq a b = (a = b)"

fun float_le :: "float64 \<Rightarrow> float64 \<Rightarrow> bool" where
  "float_le NaN _ = False"
| "float_le _ NaN = False"
| "float_le NegInf _ = True"
| "float_le _ PosInf = True"
| "float_le (Fin a) (Fin b) = (a \<le> b)"
| "float_le _ _ = False"

fun str_le :: "string \<Rightarrow> string \<Rightarrow> bool" where
  "str_le [] t = True"
| "str_le (c # cs) [] = False"
| "str_le (c # cs) (d # ds) = ((of_char c :: nat) < of_char d \<or> (c = d \<and> str_le cs ds))"

fun py_number :: "pyval \<Rightarrow> float64 option" where
  "py_number (IntV i) = Some (Fin (of_int i))"
| "py_number (FloatV x) = Some x"
| "py_number _ = None"

datatype operands = Ints int int | Floats float64 float64 | Texts string string | Unrelated

definition operands_of :: "dtype \<Rightarrow> pyval \<Rightarrow> pyval \<Rightarrow> operands" where
  "operands_of dt a b =
     (case (a, b) of
        (StrV s, StrV t) \<Rightarrow> Texts s t
      | (IntV x, IntV y) \<Rightarrow>
          if dt = Float64 then Floats (Fin (f64_of_int x)) (Fin (f64_of_int y)) else Ints x y
      | _ \<Rightarrow>
          (case (if dt = Object then (py_number a, py_number b) else (to_float a, to_float b)) of
             (Some x, Some y) \<Rightarrow> Floats x y
           | _ \<Rightarrow> Unrelated))"

definition py_eq :: "dtype \<Rightarrow> pyval \<Rightarrow> pyval \<Rightarrow> bool" where
  "py_eq dt a b =
     (case operands_of dt a b of
        Ints x y \<Rightarrow> x = y
      | Floats x y \<Rightarrow> float_eq x y
      | Texts s t \<Rightarrow> s = t
      | Unrelated \<Rightarrow> False)"

definition py_le :: "dtype \<Rightarrow> pyval \<Rightarrow> pyval \<Rightarrow> exn + bool" where
  "py_le dt a b =
     (case operands_of dt a b of
        Ints x y \<Rightarrow> Inr (x \<le> y)
      | Floats x y \<Rightarrow> Inr (float_le x y)
      | Texts s t \<Rightarrow> Inr (str_le s t)
      | Unrelated \<Rightarrow> Inl (TypeError ''<= not supported between these instances''))"

fun map_exn :: "('a \<Rightarrow> exn + 'b) \<Rightarrow> 'a list \<Rightarrow> exn + 'b list" where
  "map_exn f [] = Inr []"
| "map_exn f (v # vs) =
     and_then (f v) (\<lambda>w. and_then (map_exn f vs) (\<lambda>ws. Inr (w # ws)))"

section \<open>Parser: \<^verbatim>\<open>read_data\<close>\<close>

definition column_names :: "string list" where
  "column_names =
     [''Year'', ''Day'', ''Hour'', ''Minute'',
      ''Field_Magnitude_Avg'', ''BX'', ''BY'', ''BZ'',
      ''Speed'', ''Proton_Density'', ''Proton_Temperature'',
      ''Electric_Field'', ''Plasma_Beta'', ''Alfven_Mach_Number'',
      ''AE_Index'', ''AL_Index'', ''AU_Index'',
      ''SYM_D'', ''SYM_H'']"

definition lst_file_path :: string where
  "lst_file_path = ''omni_web_data1.lst''"

subsection \<open>\<^verbatim>\<open>astype(str)\<close> and the row-wise join\<close>

text \<open>
  \<^verbatim>\<open>astype(str)\<close> converts a column by its dtype: in a \<^verbatim>\<open>float64\<close> column every cell,
  the integral ones too, prints as a float (\<^verbatim>\<open>131\<close> becomes \<^verbatim>\<open>131.0\<close>); the cells of
  the other columns are printed by \<^verbatim>\<open>str\<close>.
\<close>

fun promote :: "pyval \<Rightarrow> pyval" where
  "promote (IntV i) = FloatV (Fin (f64_of_int i))"
| "promote v = v"

definition astype_str :: "(real \<Rightarrow> string) \<Rightarrow> pyval list \<Rightarrow> string list" where
  "astype_str frepr c =
     (case dtype_of c of
        Int64 \<Rightarrow> map (py_str frepr) c
      | Float64 \<Rightarrow> map (\<lambda>v. py_str frepr (promote v)) c
      | Object \<Rightarrow> map (py_str frepr) c)"

text \<open>\<^verbatim>\<open>.agg('-'.join, axis=1)\<close> over the four string columns.\<close>

definition agg_join :: "string list \<Rightarrow> string list \<Rightarrow> string list \<Rightarrow> string list \<Rightarrow> string list" where
  "agg_join ys ds hs ms =
     map (\<lambda>(y, d, h, m). y @ ''-'' @ d @ ''-'' @ h @ ''-'' @ m) (zip ys (zip ds (zip hs ms)))"

subsection \<open>\<^verbatim>\<open>pd.to_datetime(..., format='%Y-%j-%H-%M', errors='coerce')\<close>\<close>

text \<open>
  The format is matched against the whole string: \<^verbatim>\<open>%Y\<close> is exactly four digits,
  \<^verbatim>\<open>%j\<close> one to three digits denoting 1 to 366, \<^verbatim>\<open>%H\<close> one or two digits denoting 0 to
  23, \<^verbatim>\<open>%M\<close> one or two digits denoting 0 to 59, with \<^verbatim>\<open>-\<close> between them. The date is
  the day-of-year counted from 1 January of the year (day 366 of a common year is 1 January
  of the next one), and it must lie in the range of a nanosecond Timestamp,
  1677-09-21 00:12:43 to 2262-04-11 23:47:16. With \<^verbatim>\<open>errors='coerce'\<close> a string that
  fails any of this yields NaT instead of an exception.
\<close>

fun split_on :: "char \<Rightarrow> string \<Rightarrow> string list" where
  "split_on sep [] = [[]]"
| "split_on sep (c # cs) =
     (if c = sep then [] # split_on sep cs
      else (case split_on sep cs of [] \<Rightarrow> [[c]] | w # ws \<Rightarrow> (c # w) # ws))"

definition is_digit :: "char \<Rightarrow> bool" where
  "is_digit c = (c \<in> set ''0123456789'')"

definition digit_val :: "char \<Rightarrow> nat" where
  "digit_val c = of_char c - 48"

definition digits_val :: "string \<Rightarrow> nat" where
  "digits_val s = foldl (\<lambda>a c. 10 * a + digit_val c) 0 s"

definition all_digits :: "string \<Rightarrow> bool" where
  "all_digits s = (s \<noteq> [] \<and> list_all is_digit s)"

definition is_leap :: "nat \<Rightarrow> bool" where
  "is_leap y = (y mod 4 = 0 \<and> (y mod 100 \<noteq> 0 \<or> y mod 400 = 0))"

definition month_lengths :: "nat \<Rightarrow> nat list" where
  "month_lengths y = [31, if is_leap y then 29 else 28, 31, 30, 31, 30, 31, 31, 30, 31, 30, 31]"

fun month_day :: "nat list \<Rightarrow> nat \<Rightarrow> nat \<Rightarrow> nat \<times> nat" where
  "month_day [] m d = (m, d)"
| "month_day (l # ls) m d = (if d \<le> l then (m, d) else month_day ls (m + 1) (d - l))"

definition date_of_ordinal :: "nat \<Rightarrow> nat \<Rightarrow> nat \<times> nat \<times> nat" where
  "date_of_ordinal y j =
     (if j \<le> sum_list (month_lengths y) then (y, month_day (month_lengths y) 1 j)
      else (y + 1, 1, j - sum_list (month_lengths y)))"

definition ts_key :: "timestamp \<Rightarrow> nat" where
  "ts_key t =
     (((ts_year t * 100 + ts_month t) * 100 + ts_day t) * 100 + ts_hour t) * 100 + ts_minute t"

definition mk_timestamp :: "nat \<Rightarrow> nat \<Rightarrow> nat \<Rightarrow> nat \<Rightarrow> timestamp option" where
  "mk_timestamp y j h mi =
     (if y = 0 then None
      else
        (case date_of_ordinal y j of
           (y', mo, d) \<Rightarrow>
             let t = \<lparr>ts_year = y', ts_month = mo, ts_day = d, ts_hour = h, ts_minute = mi\<rparr>
             in if 167709210013 \<le> ts_key t \<and> ts_key t \<le> 226204112347 then Some t else None))"

definition to_datetime_one :: "string \<Rightarrow> timestamp option" where
  "to_datetime_one s =
     (case split_on CHR ''-'' s of
        [y, j, h, mi] \<Rightarrow>
          if all_digits y \<and> length y = 4 \<and>
             all_digits j \<and> length j \<le> 3 \<and> 1 \<le> digits_val j \<and> digits_val j \<le> 366 \<and>
             all_digits h \<and> length h \<le> 2 \<and> digits_val h \<le> 23 \<and>
             all_digits mi \<and> length mi \<le> 2 \<and> digits_val mi \<le> 59
          then mk_timestamp (digits_val y) (digits_val j) (digits_val h) (digits_val mi)
          else None
      | _ \<Rightarrow> None)"

definition to_datetime :: "string list \<Rightarrow> pyval list" where
  "to_datetime ss = map (\<lambda>s. TimeV (to_datetime_one s)) ss"

subsection \<open>The derived column\<close>

text \<open>
  \<^verbatim>\<open>df[name] = values\<close>: a new column is appended, an existing one overwritten. On a
  frame without rows the row-wise \<^verbatim>\<open>agg\<close> has nothing to join and hands back a frame,
  which \<^verbatim>\<open>to_datetime\<close> refuses with a ValueError (it then looks for year, month and day
  columns).
\<close>

definition set_column :: "frame \<Rightarrow> string \<Rightarrow> pyval list \<Rightarrow> frame" where
  "set_column df name vs =
     (case index_of name (columns df) of
        None \<Rightarrow> \<lparr>columns = columns df @ [name], rows = map2 (\<lambda>r v. r @ [v]) (rows df) vs\<rparr>
      | Some i \<Rightarrow> df\<lparr>rows := map2 (\<lambda>r v. r[i := v]) (rows df) vs\<rparr>)"

definition add_datetime :: "(real \<Rightarrow> string) \<Rightarrow> frame \<Rightarrow> exn + frame" where
  "add_datetime frepr data =
     and_then (col data ''Year'') (\<lambda>ys.
     and_then (col data ''Day'') (\<lambda>ds.
     and_then (col data ''Hour'') (\<lambda>hs.
     and_then (col data ''Minute'') (\<lambda>ms.
       if rows data = []
       then Inl (ValueError ''to assemble mappings requires at least that [year, month, day] be specified'')
       else Inr (set_column data ''DateTime''
                   (to_datetime (agg_join (astype_str frepr ys) (astype_str frepr ds)
                                          (astype_str frepr hs) (astype_str frepr ms))))))))"

subsection \<open>\<^verbatim>\<open>read_data\<close> and the start of the script\<close>

text \<open>
  \<^verbatim>\<open>pd.read_fwf\<close> is the library's reader; what it does with the file at the given path
  is the parameter \<open>read_fwf\<close>, called with the path and \<^verbatim>\<open>names=column_names\<close> and
  answering with a frame or an exception. Printed lines are collected in order;
  \<^verbatim>\<open>print(data.head())\<close> shows the first five rows. The \<^verbatim>\<open>try\<close> body is \<open>read_body\<close>;
  \<^verbatim>\<open>except Exception\<close> catches whatever it raises.
\<close>

datatype out = Line string | Head frame

definition head :: "frame \<Rightarrow> frame" where
  "head df = df\<lparr>rows := take 5 (rows df)\<rparr>"

definition read_body ::
  "(real \<Rightarrow> string) \<Rightarrow> (string \<Rightarrow> string list \<Rightarrow> exn + frame) \<Rightarrow> string \<Rightarrow> out list \<Rightarrow>
     (exn + frame) \<times> out list" where
  "read_body frepr read_fwf lst_file out0 =
     (case read_fwf lst_file column_names of
        Inl e \<Rightarrow> (Inl e, out0)
      | Inr data \<Rightarrow>
          let out1 = out0 @ [Line ''Data read successfully. First few rows:'', Head (head data)]
          in (case add_datetime frepr data of
                Inl e \<Rightarrow> (Inl e, out1)
              | Inr data' \<Rightarrow>
                  (Inr data',
                   out1 @ [Line (''Number of records: '' @ nat_str (length (rows data')))])))"

fun exn_str :: "exn \<Rightarrow> string" where
  "exn_str (KeyError k) = [CHR 0x27] @ k @ [CHR 0x27]"
| "exn_str (IndexError m) = m"
| "exn_str (TypeError m) = m"
| "exn_str (ValueError m) = m"
| "exn_str (OverflowError m) = m"
| "exn_str (AttributeError m) = m"
| "exn_str (LibraryError m) = m"

definition read_data ::
  "(real \<Rightarrow> string) \<Rightarrow> (string \<Rightarrow> string list \<Rightarrow> exn + frame) \<Rightarrow> string \<Rightarrow> out list \<Rightarrow>
     (exn + frame) \<times> out list" where
  "read_data frepr read_fwf lst_file out0 =
     (case read_body frepr read_fwf lst_file out0 of
        (Inr data, out1) \<Rightarrow> (Inr data, out1)
      | (Inl e, out1) \<Rightarrow>
          (Inr empty_frame, out1 @ [Line (''Error reading the LST file: '' @ exn_str e)]))"

text \<open>
  The module level: the frame is loaded once; when it is empty a message is printed and
  nothing else happens. Otherwise the \<^verbatim>\<open>else\<close> branch builds the layout of the Dash
  application over the frame: the dropdown takes the values and the \<^verbatim>\<open>min\<close> of the Year
  column (a column that mixes text and numbers has no minimum: TypeError), and the slider
  takes \<^verbatim>\<open>min\<close>, \<^verbatim>\<open>max\<close> and \<^verbatim>\<open>mean\<close> of Field_Magnitude_Avg (which skip NaN) and
  \<^verbatim>\<open>int(min)\<close>, \<^verbatim>\<open>int(max)\<close> for its marks. \<^verbatim>\<open>int\<close> raises ValueError on NaN (no
  magnitude is a number) and OverflowError on an infinity; the mean of a column of objects
  raises TypeError. These exceptions are not caught and end the script. When the layout is
  built the callbacks are registered over the frame (\<open>BuildView\<close>); the server is the
  framework's and is not modelled.
\<close>

definition slider_range :: "pyval list \<Rightarrow> exn + unit" where
  "slider_range mags =
     (if list_ex (\<lambda>v. to_float v = None) mags
      then Inl (TypeError ''unsupported operand type'')
      else if list_all (\<lambda>v. to_float v = Some NaN) mags
      then Inl (ValueError ''cannot convert float NaN to integer'')
      else if list_ex (\<lambda>v. to_float v = Some NegInf \<or> to_float v = Some PosInf) mags
      then Inl (OverflowError ''cannot convert float infinity to integer'')
      else Inr ())"

definition year_dropdown :: "pyval list \<Rightarrow> exn + unit" where
  "year_dropdown years =
     (if list_ex is_str years \<and> list_ex is_number years
      then Inl (TypeError ''<= not supported between these instances'')
      else Inr ())"

definition layout :: "frame \<Rightarrow> exn + unit" where
  "layout storm_data =
     and_then (col storm_data ''Year'') (\<lambda>years.
     and_then (year_dropdown years) (\<lambda>u.
     and_then (col storm_data ''Field_Magnitude_Avg'') slider_range))"

datatype view = NoView | BuildView frame

definition startup ::
  "(real \<Rightarrow> string) \<Rightarrow> (string \<Rightarrow> string list \<Rightarrow> exn + frame) \<Rightarrow> (exn + view) \<times> out list" where
  "startup frepr read_fwf =
     (case read_data frepr read_fwf lst_file_path [] of
        (Inl e, out1) \<Rightarrow> (Inl e, out1)
      | (Inr storm_data, out1) \<Rightarrow>
          if df_empty storm_data
          then (Inr NoView,
                out1 @ [Line ''The DataFrame is empty. Please check the LST file format.''])
          else (case layout storm_data of
                  Inl e \<Rightarrow> (Inl e, out1)
                | Inr u \<Rightarrow> (Inr (BuildView storm_data), out1)))"

section \<open>Filter and presentation: \<^verbatim>\<open>update_graph\<close>\<close>

text \<open>
  \<^verbatim>\<open>filtered_data = storm_data[(storm_data['Year'] == selected_year) &
                            (storm_data['Field_Magnitude_Avg'] <= selected_magnitude)]\<close>
\<close>

definition filtered_data :: "frame \<Rightarrow> pyval \<Rightarrow> pyval \<Rightarrow> exn + frame" where
  "filtered_data storm_data selected_year selected_magnitude =
     and_then (col storm_data ''Year'') (\<lambda>years.
     and_then (col storm_data ''Field_Magnitude_Avg'') (\<lambda>mags.
     and_then (map_exn (\<lambda>v. py_le (dtype_of mags) v selected_magnitude) mags) (\<lambda>le_mask.
       Inr (bool_index storm_data
              (map2 (\<and>) (map (\<lambda>v. py_eq (dtype_of years) v selected_year) years) le_mask)))))"

text \<open>
  \<^verbatim>\<open>Series.dt.strftime('%Y-%m-%d %H:%M')\<close>: the accessor exists on a datetime column
  only; a Timestamp is formatted, NaT becomes the missing value NaN.
\<close>

fun hover_label :: "pyval \<Rightarrow> pyval" where
  "hover_label (TimeV (Some t)) = StrV (strftime t)"
| "hover_label _ = FloatV NaN"

definition dt_strftime :: "pyval list \<Rightarrow> exn + pyval list" where
  "dt_strftime s =
     (if list_all is_time s then Inr (map hover_label s)
      else Inl (AttributeError ''Can only use .dt accessor with datetimelike values''))"

text \<open>The \<^verbatim>\<open>go.Scatter3d\<close> trace handed to the plotting library.\<close>

record scatter3d =
  scatter_x :: "pyval list"
  scatter_y :: "pyval list"
  scatter_z :: "pyval list"
  marker_size :: nat
  marker_color :: "pyval list"
  colorscale :: string
  showscale :: bool
  hover_text :: "pyval list"

definition scatter3d_trace :: "frame \<Rightarrow> exn + scatter3d" where
  "scatter3d_trace fd =
     and_then (col fd ''BX'') (\<lambda>cx.
     and_then (col fd ''BY'') (\<lambda>cy.
     and_then (col fd ''BZ'') (\<lambda>cz.
     and_then (col fd ''Field_Magnitude_Avg'') (\<lambda>mag.
     and_then (col fd ''DateTime'') (\<lambda>dt.
     and_then (dt_strftime dt) (\<lambda>labels.
       Inr \<lparr>scatter_x = cx, scatter_y = cy, scatter_z = cz, marker_size = 5,
            marker_color = mag, colorscale = ''Viridis'', showscale = True,
            hover_text = labels\<rparr>))))))"

definition update_graph :: "frame \<Rightarrow> pyval \<Rightarrow> pyval \<Rightarrow> exn + scatter3d" where
  "update_graph storm_data selected_year selected_magnitude =
     and_then (filtered_data storm_data selected_year selected_magnitude) scatter3d_trace"

section \<open>Selection echo: \<^verbatim>\<open>display_click_data\<close>\<close>

text \<open>
  The argument is \<^verbatim>\<open>None\<close> until a point is clicked, then the dict of the click event,
  whose key \<^verbatim>\<open>points\<close> holds a list of point dicts. \<^verbatim>\<open>if clickdata:\<close> is false for
  \<^verbatim>\<open>None\<close> and for the empty dict. A missing key raises KeyError and an empty list of
  points raises IndexError. The f-string substitutes \<^verbatim>\<open>str\<close> of each value, looked up
  from left to right.
\<close>

type_synonym point = "(string \<times> pyval) list"

datatype clickdata = NoClick | Click "(string \<times> point list) list"

definition display_click_data :: "(real \<Rightarrow> string) \<Rightarrow> clickdata \<Rightarrow> exn + string" where
  "display_click_data frepr clickdata =
     (case clickdata of
        NoClick \<Rightarrow> Inr ''Click on a point to see details.''
      | Click d \<Rightarrow>
          if d = [] then Inr ''Click on a point to see details.''
          else
            and_then (getitem d ''points'') (\<lambda>points.
              case points of
                [] \<Rightarrow> Inl (IndexError ''list index out of range'')
              | point # _ \<Rightarrow>
                  and_then (getitem point ''text'') (\<lambda>t.
                  and_then (getitem point ''x'') (\<lambda>x.
                  and_then (getitem point ''y'') (\<lambda>y.
                  and_then (getitem point ''z'') (\<lambda>z.
                    Inr (''Clicked Point: DateTime: '' @ py_str frepr t @
                         '', BX: '' @ py_str frepr x @
                         '', BY: '' @ py_str frepr y @
                         '', BZ: '' @ py_str frepr z)))))))"

section \<open>The line reader, from the specification\<close>

text \<open>
  \<^verbatim>\<open>pandas.read_fwf\<close>, which turns the lines of the file into rows, is library code and
  not part of the source; \<open>read_data\<close> above takes its behaviour as a parameter. For the
  properties that speak of the lines of the file, the reader is modelled from the
  specification. The file system is a function from paths to what is found there.
\<close>

datatype lst_source = Unreadable string | Text "string list"

text \<open>
  Modelled from the spec: the tokenization of a line, which \<^verbatim>\<open>pandas.read_fwf\<close> performs
  and the source does not contain. The specification calls the input
  ``whitespace/column-aligned fixed-width text'' with the fields of the schema on each
  line: the fields of a line are its maximal runs of non-blank characters.
\<close>

definition line_fields :: "string \<Rightarrow> string list" where
  "line_fields line = filter (\<lambda>w. w \<noteq> []) (split_on CHR '' '' line)"

text \<open>
  Modelled from the spec: \<^verbatim>\<open>pandas.read_fwf(lst_file, names=column_names)\<close>, library code
  that the source calls and does not contain. The specification says: one record per
  line, in file order, with no header row; each line is decoded into the fields of the
  fixed schema; a file that cannot be opened or read, or a line that cannot be tokenized
  into the expected field count, makes the parse fail as a whole; a malformed field does
  not (it is for \<open>decode\<close>, the decoding of one field text into a number or NaN, to map it
  to NaN).
\<close>

definition read_fwf_spec ::
  "(string \<Rightarrow> pyval) \<Rightarrow> (string \<Rightarrow> lst_source) \<Rightarrow> string \<Rightarrow> string list \<Rightarrow> exn + frame" where
  "read_fwf_spec decode fs path names =
     (case fs path of
        Unreadable msg \<Rightarrow> Inl (LibraryError msg)
      | Text lines \<Rightarrow>
          if list_all (\<lambda>l. length (line_fields l) = length names) lines
          then Inr \<lparr>columns = names, rows = map (\<lambda>l. map decode (line_fields l)) lines\<rparr>
          else Inl (LibraryError ''unexpected number of fields in a line''))"

section \<open>Predicates of the specification\<close>

text \<open>
  The specification speaks of the numbers in the records. A cell stands for the number
  written in the file, taken exactly; numbers are ordered as points of the extended real
  line, \<open>-\<infinity>\<close> below and \<open>+\<infinity>\<close> above every finite one, and NaN, the missing value,
  is not a number: it equals nothing and is at most nothing. A value is a \<^verbatim>\<open>float64\<close>
  value when converting it to \<^verbatim>\<open>float64\<close> does not change it; the specification's
  fields are such values.
\<close>

fun number_of :: "pyval \<Rightarrow> float64 option" where
  "number_of (IntV i) = Some (Fin (of_int i))"
| "number_of (FloatV x) = Some x"
| "number_of _ = None"

fun level :: "float64 \<Rightarrow> int" where
  "level NegInf = - 1"
| "level PosInf = 1"
| "level _ = 0"

fun finite_part :: "float64 \<Rightarrow> real" where
  "finite_part (Fin r) = r"
| "finite_part _ = 0"

definition at_most :: "float64 \<Rightarrow> float64 \<Rightarrow> bool" where
  "at_most x y =
     (x \<noteq> NaN \<and> y \<noteq> NaN \<and>
      (level x < level y \<or> (level x = level y \<and> finite_part x \<le> finite_part y)))"

definition float64_value :: "pyval \<Rightarrow> bool" where
  "float64_value v = (case v of IntV i \<Rightarrow> f64_of_int i = of_int i | FloatV x \<Rightarrow> True | _ \<Rightarrow> False)"

text \<open>
  A record has Year \<open>y\<close> when its Year (column \<open>i\<close>) is the number \<open>y\<close>; its
  FieldMagnitudeAvg (column \<open>j\<close>) is at most \<open>m\<close>, or known (not missing); it is in the
  selection \<open>(y, m)\<close> when it has Year \<open>y\<close> and its FieldMagnitudeAvg is at most \<open>m\<close>.
\<close>

definition year_is :: "nat \<Rightarrow> pyval \<Rightarrow> pyval list \<Rightarrow> bool" where
  "year_is i y r =
     (case (number_of (r ! i), number_of y) of
        (Some a, Some b) \<Rightarrow> a \<noteq> NaN \<and> a = b
      | _ \<Rightarrow> False)"

definition magnitude_at_most :: "nat \<Rightarrow> pyval \<Rightarrow> pyval list \<Rightarrow> bool" where
  "magnitude_at_most j m r =
     (case (number_of (r ! j), number_of m) of
        (Some c, Some d) \<Rightarrow> at_most c d
      | _ \<Rightarrow> False)"


definition in_selection :: "nat \<Rightarrow> nat \<Rightarrow> pyval \<Rightarrow> pyval \<Rightarrow> pyval list \<Rightarrow> bool" where
  "in_selection i j y m r = (year_is i y r \<and> magnitude_at_most j m r)"

text \<open>
  The label format \<^verbatim>\<open>YYYY-MM-DD HH:MM\<close> of the specification, digit by digit, and the
  ranges of the fields of a calendar timestamp.
\<close>

definition wf_timestamp :: "timestamp \<Rightarrow> bool" where
  "wf_timestamp t =
     (ts_year t < 10000 \<and> 1 \<le> ts_month t \<and> ts_month t \<le> 12 \<and> 1 \<le> ts_day t \<and> ts_day t \<le> 31 \<and>
      ts_hour t < 24 \<and> ts_minute t < 60)"

definition two_digits :: "nat \<Rightarrow> string" where
  "two_digits n = [digit_char (n div 10), digit_char (n mod 10)]"

definition ymd_hm :: "timestamp \<Rightarrow> string" where
  "ymd_hm t =
     [digit_char (ts_year t div 1000), digit_char (ts_year t div 100 mod 10),
      digit_char (ts_year t div 10 mod 10), digit_char (ts_year t mod 10)] @ ''-'' @
     two_digits (ts_month t) @ ''-'' @ two_digits (ts_day t) @ '' '' @
     two_digits (ts_hour t) @ '':'' @ two_digits (ts_minute t)"

section \<open>Sample data\<close>

text \<open>
  Rows as the reader delivers them: nineteen cells in schema order. The first five cells
  vary; the field vector and the remaining indices are fixed. \<open>fwf_yields\<close> is a reader
  that answers with the given rows under the requested column names, \<open>fwf_fails\<close> one
  that raises. \<open>frepr0\<close> gives the text of the two fractional field values of the samples
  (no other fractional value is printed in them).
\<close>

definition sample_row :: "pyval \<Rightarrow> pyval \<Rightarrow> pyval \<Rightarrow> pyval \<Rightarrow> pyval \<Rightarrow> pyval list" where
  "sample_row y d h m mag =
     [y, d, h, m, mag, FloatV (Fin (- 3.2)), FloatV (Fin 1.1), FloatV (Fin 4),
      FloatV (Fin 0), FloatV (Fin 0), FloatV (Fin 0), FloatV (Fin 0), FloatV (Fin 0),
      FloatV (Fin 0), FloatV (Fin 0), FloatV (Fin 0), FloatV (Fin 0), FloatV (Fin 0),
      FloatV (Fin 0)]"

definition fwf_yields :: "pyval list list \<Rightarrow> string \<Rightarrow> string list \<Rightarrow> exn + frame" where
  "fwf_yields rs path names = Inr \<lparr>columns = names, rows = rs\<rparr>"

definition fwf_fails :: "string \<Rightarrow> string \<Rightarrow> string list \<Rightarrow> exn + frame" where
  "fwf_fails msg path names = Inl (LibraryError msg)"

definition frepr0 :: "real \<Rightarrow> string" where
  "frepr0 r = (if r = - 3.2 then ''-3.2'' else if r = 1.1 then ''1.1'' else ''0.5'')"

definition may10 :: "nat \<Rightarrow> nat \<Rightarrow> timestamp" where
  "may10 h mi = \<lparr>ts_year = 2024, ts_month = 5, ts_day = 10, ts_hour = h, ts_minute = mi\<rparr>"

text \<open>
  Three records, the third with day-of-year 400, as raw rows and as the frame that
  \<open>read_data\<close> makes of them.
\<close>

definition storm_rows :: "pyval list list" where
  "storm_rows =
     [sample_row (IntV 2024) (IntV 131) (IntV 12) (IntV 0) (FloatV (Fin 5.2)),
      sample_row (IntV 2024) (IntV 131) (IntV 12) (IntV 30) (FloatV (Fin 7.5)),
      sample_row (IntV 2023) (IntV 400) (IntV 0) (IntV 0) (FloatV (Fin 3))]"

definition storm_sample :: frame where
  "storm_sample =
     \<lparr>columns = column_names @ [''DateTime''],
      rows = [sample_row (IntV 2024) (IntV 131) (IntV 12) (IntV 0) (FloatV (Fin 5.2)) @
                [TimeV (Some (may10 12 0))],
              sample_row (IntV 2024) (IntV 131) (IntV 12) (IntV 30) (FloatV (Fin 7.5)) @
                [TimeV (Some (may10 12 30))],
              sample_row (IntV 2023) (IntV 400) (IntV 0) (IntV 0) (FloatV (Fin 3)) @
                [TimeV None]]\<rparr>"


definition gap_sample :: frame where
  "gap_sample =
     \<lparr>columns = column_names @ [''DateTime''],
      rows = [sample_row (IntV 2024) (IntV 131) (IntV 12) (IntV 0) (FloatV (Fin 5.2)) @
                [TimeV (Some (may10 12 0))],
              sample_row (IntV 2024) (IntV 131) (IntV 12) (IntV 30) (FloatV NaN) @
                [TimeV (Some (may10 12 30))]]\<rparr>"

text \<open>
  Two records of which the first has no Day value; a record on day 366 of the common year
  2023; and the row for a line that holds only the first five fields, whose missing
  fields the library fills with NaN.
\<close>

definition day_gap_rows :: "pyval list list" where
  "day_gap_rows =
     [sample_row (IntV 2024) (FloatV NaN) (IntV 12) (IntV 0) (FloatV (Fin 5.2)),
      sample_row (IntV 2024) (IntV 131) (IntV 12) (IntV 0) (FloatV (Fin 5.2))]"

definition day_366_rows :: "pyval list list" where
  "day_366_rows = [sample_row (IntV 2023) (IntV 366) (IntV 0) (IntV 0) (FloatV (Fin 5.2))]"

definition short_line_row :: "pyval list" where
  "short_line_row =
     [IntV 2024, IntV 131, IntV 12, IntV 0, FloatV (Fin 5.2), FloatV NaN, FloatV NaN,
      FloatV NaN, FloatV NaN, FloatV NaN, FloatV NaN, FloatV NaN, FloatV NaN, FloatV NaN,
      FloatV NaN, FloatV NaN, FloatV NaN, FloatV NaN, FloatV NaN]"

text \<open>A reader whose frame lacks the schema's columns.\<close>

definition foreign_frame :: "string \<Rightarrow> string list \<Rightarrow> exn + frame" where
  "foreign_frame path names = Inr \<lparr>columns = [''Epoch''], rows = [[IntV 1]]\<rparr>"

text \<open>
  A decoder for the sample files: an unsigned integer literal is an integer, any other
  text is NaN. (The library's decoder also reads signs, fractions and exponents.)
\<close>

definition decode_int :: "string \<Rightarrow> pyval" where
  "decode_int s = (if all_digits s then IntV (int (digits_val s)) else FloatV NaN)"

text \<open>Two lines in the layout of the schema, and the file that holds them.\<close>

definition omni_line_1 :: string where
  "omni_line_1 = ''2024 131 12  0 5 3 1 4 400 5 100000 1 1 8 150 90 60 3 20''"

definition omni_line_2 :: string where
  "omni_line_2 = ''2024 131 12 30 7 2 0 5 410 6 110000 1 1 9 160 95 65 2 25''"

definition two_line_file :: "string \<Rightarrow> lst_source" where
  "two_line_file path = Text [omni_line_1, omni_line_2]"

section \<open>Properties\<close>

subsection \<open>Selection echo\<close>

text \<open>
  C6. For a click event whose first point carries the fields \<open>text\<close>, \<open>x\<close>, \<open>y\<close> and
  \<open>z\<close>, \<open>display_click_data\<close> returns exactly
  \<^verbatim>\<open>Clicked Point: DateTime: <label>, BX: <x>, BY: <y>, BZ: <z>\<close> with \<^verbatim>\<open>str\<close> of each
  value substituted, and without a click it returns exactly
  \<^verbatim>\<open>Click on a point to see details.\<close>
\<close>

theorem display_click_data_format:
  assumes "map_of ev ''points'' = Some (p # ps)"
    and "map_of p ''text'' = Some label"
    and "map_of p ''x'' = Some x"
    and "map_of p ''y'' = Some y"
    and "map_of p ''z'' = Some z"
  shows "display_click_data frepr (Click ev) =
           Inr (''Clicked Point: DateTime: '' @ py_str frepr label @ '', BX: '' @ py_str frepr x @
                '', BY: '' @ py_str frepr y @ '', BZ: '' @ py_str frepr z)
         \<and> display_click_data frepr NoClick = Inr ''Click on a point to see details.''"
proof -
  from assms(1) have "ev \<noteq> []" by auto
  with assms show ?thesis
    by (simp add: display_click_data_def getitem_def and_then_def)
qed

theorem display_click_data_format_witness:
  "display_click_data frepr0
     (Click [(''points'',
        [[(''text'', StrV ''2024-05-10 12:00''), (''x'', FloatV (Fin (- 3.2))),
          (''y'', FloatV (Fin 1.1)), (''z'', FloatV (Fin 4))]])]) =
     Inr ''Clicked Point: DateTime: 2024-05-10 12:00, BX: -3.2, BY: 1.1, BZ: 4.0''
   \<and> display_click_data frepr0 NoClick = Inr ''Click on a point to see details.''"
  using display_click_data_format [of
      "[(''points'',
        [[(''text'', StrV ''2024-05-10 12:00''), (''x'', FloatV (Fin (- 3.2))),
          (''y'', FloatV (Fin 1.1)), (''z'', FloatV (Fin 4))]])]"
      "[(''text'', StrV ''2024-05-10 12:00''), (''x'', FloatV (Fin (- 3.2))),
          (''y'', FloatV (Fin 1.1)), (''z'', FloatV (Fin 4))]"
      "[]" "StrV ''2024-05-10 12:00''" "FloatV (Fin (- 3.2))" "FloatV (Fin 1.1)"
      "FloatV (Fin 4)" frepr0]
  by (simp add: float_str_def int_str_def nat_str.simps digit_char_def frepr0_def)

subsection \<open>Filter\<close>

lemma map_exn_total:
  "\<forall>v\<in>set vs. \<exists>b. f v = Inr b \<Longrightarrow> map_exn f vs = Inr (map (\<lambda>v. f v = Inr True) vs)"
  by (induction vs) (auto simp: and_then_def)

lemma select_by_mask:
  "map fst (filter snd (zip xs (map2 (\<and>) (map p (map g xs)) (map q (map h xs))))) =
     filter (\<lambda>x. p (g x) \<and> q (h x)) xs"
  by (induction xs) auto

lemma bit_length_bound: "n < 2 ^ k \<Longrightarrow> bit_length n \<le> k"
proof (induction k arbitrary: n)
  case 0
  then show ?case by (simp add: bit_length.simps)
next
  case (Suc k)
  then have "n div 2 < 2 ^ k" by auto
  with Suc.IH [of "n div 2"] show ?case
    by (subst bit_length.simps) simp
qed

lemma float64_small: "\<bar>i\<bar> < 2 ^ 53 \<Longrightarrow> f64_of_int i = of_int i"
proof -
  assume a: "\<bar>i\<bar> < 2 ^ 53"
  have r: "round_53 n = n" if "n < 2 ^ 53" for n
    using bit_length_bound [OF that] by (simp add: round_53_def)
  show ?thesis
  proof (cases "i < 0")
    case True
    with a have "nat (- i) < 2 ^ 53" by (simp add: nat_less_iff)
    with True r show ?thesis by (simp add: f64_of_int_def)
  next
    case False
    with a have "nat i < 2 ^ 53" by (simp add: nat_less_iff)
    with False r show ?thesis by (simp add: f64_of_int_def)
  qed
qed

lemma float_le_at_most: "float_le x y = at_most x y"
  by (cases x; cases y) (simp_all add: at_most_def)

lemma float_eq_same: "float_eq x y = (x \<noteq> NaN \<and> x = y)"
  by (cases x; cases y) simp_all

lemma py_le_spec:
  assumes "float64_value a" and "float64_value b"
  shows "\<exists>c d. number_of a = Some c \<and> number_of b = Some d \<and> py_le dt a b = Inr (at_most c d)"
  using assms
  by (cases a; cases b; cases dt)
    (simp_all add: float64_value_def py_le_def operands_of_def float_le_at_most at_most_def)

lemma py_eq_spec:
  assumes "float64_value a" and "float64_value b"
  shows "\<exists>c d. number_of a = Some c \<and> number_of b = Some d
           \<and> py_eq dt a b = (c \<noteq> NaN \<and> c = d)"
  using assms
  by (cases a; cases b; cases dt)
    (simp_all add: float64_value_def py_eq_def operands_of_def float_eq_same)

lemma filtered_data_rows:
  assumes "index_of ''Year'' (columns df) = Some i"
    and "index_of ''Field_Magnitude_Avg'' (columns df) = Some j"
    and cells: "list_all (\<lambda>r. float64_value (r ! i) \<and> float64_value (r ! j)) (rows df)"
    and y: "float64_value y" and m: "float64_value m"
  shows "filtered_data df y m = Inr (df\<lparr>rows := filter (in_selection i j y m) (rows df)\<rparr>)"
proof -
  let ?years = "map (\<lambda>r. r ! i) (rows df)" and ?mags = "map (\<lambda>r. r ! j) (rows df)"
  have le: "py_le dt (r ! j) m = Inr (magnitude_at_most j m r)" if "r \<in> set (rows df)" for r dt
  proof -
    from cells that have "float64_value (r ! j)" by (simp add: list_all_iff)
    from py_le_spec [OF this m, of dt] show ?thesis
      by (auto simp: magnitude_at_most_def)
  qed
  have eq: "py_eq dt (r ! i) y = year_is i y r" if "r \<in> set (rows df)" for r dt
  proof -
    from cells that have "float64_value (r ! i)" by (simp add: list_all_iff)
    from py_eq_spec [OF this y, of dt] show ?thesis
      by (auto simp: year_is_def)
  qed
  have "\<forall>v\<in>set ?mags. \<exists>b. py_le (dtype_of ?mags) v m = Inr b"
    using le by auto
  then have "map_exn (\<lambda>v. py_le (dtype_of ?mags) v m) ?mags =
      Inr (map (\<lambda>v. py_le (dtype_of ?mags) v m = Inr True) ?mags)"
    by (rule map_exn_total)
  moreover have "filter (\<lambda>r. py_eq (dtype_of ?years) (r ! i) y
        \<and> py_le (dtype_of ?mags) (r ! j) m = Inr True) (rows df) =
      filter (in_selection i j y m) (rows df)"
    by (rule filter_cong) (simp_all add: le eq in_selection_def)
  ultimately show ?thesis
    using assms(1,2)
    by (simp add: filtered_data_def col_def and_then_def bool_index_def select_by_mask
        del: map_map)
qed

lemma update_graph_trace:
  assumes "index_of ''Year'' (columns df) = Some i"
    and "index_of ''Field_Magnitude_Avg'' (columns df) = Some j"
    and "list_all (\<lambda>r. float64_value (r ! i) \<and> float64_value (r ! j)) (rows df)"
    and "float64_value y" and "float64_value m"
  shows "update_graph df y m =
     scatter3d_trace (df\<lparr>rows := filter (in_selection i j y m) (rows df)\<rparr>)"
  by (simp add: update_graph_def filtered_data_rows [OF assms] and_then_def)

text \<open>
  An integer cell of more than 53 bits is rounded before it meets a float bound, and is
  compared exactly with an integer bound.
\<close>

lemma int64_cell_rounds:
  "py_le Int64 (IntV 9007199254740993) (FloatV (Fin 9007199254740992)) = Inr True"
  "py_le Int64 (IntV 9007199254740993) (IntV 9007199254740992) = Inr False"
proof -
  have "bit_length 9007199254740993 = 54"
    by (simp add: bit_length.simps)
  then have "f64_of_int 9007199254740993 = 9007199254740992"
    by (simp add: f64_of_int_def round_53_def Let_def)
  then show "py_le Int64 (IntV 9007199254740993) (FloatV (Fin 9007199254740992)) = Inr True"
    by (simp add: py_le_def operands_of_def)
  show "py_le Int64 (IntV 9007199254740993) (IntV 9007199254740992) = Inr False"
    by (simp add: py_le_def operands_of_def)
qed

lemma sample_columns:
  "index_of ''Year'' (column_names @ [''DateTime'']) = Some 0"
  "index_of ''Field_Magnitude_Avg'' (column_names @ [''DateTime'']) = Some 4"
  "index_of ''BX'' (column_names @ [''DateTime'']) = Some 5"
  "index_of ''BY'' (column_names @ [''DateTime'']) = Some 6"
  "index_of ''BZ'' (column_names @ [''DateTime'']) = Some 7"
  "index_of ''DateTime'' (column_names @ [''DateTime'']) = Some 19"
  by (simp_all add: column_names_def)

lemma names_columns:
  "index_of ''Year'' column_names = Some 0"
  "index_of ''Day'' column_names = Some 1"
  "index_of ''Hour'' column_names = Some 2"
  "index_of ''Minute'' column_names = Some 3"
  "index_of ''DateTime'' column_names = None"
  by (simp_all add: column_names_def)

lemmas datetime_eval =
  to_datetime_def to_datetime_one_def all_digits_def is_digit_def digits_val_def digit_val_def
  mk_timestamp_def date_of_ordinal_def month_lengths_def is_leap_def ts_key_def

lemmas str_eval = int_str_def nat_str.simps digit_char_def float_str_def

lemmas add_datetime_eval =
  add_datetime_def col_def names_columns and_then_def set_column_def astype_str_def
  dtype_of_def is_number_def agg_join_def sample_row_def may10_def float64_small

lemma add_datetime_storm:
  "add_datetime frepr0 \<lparr>columns = column_names, rows = storm_rows\<rparr> = Inr storm_sample"
  by (simp add: add_datetime_eval storm_sample_def storm_rows_def)
    (simp add: column_names_def datetime_eval str_eval)


lemma layout_samples: "layout storm_sample = Inr ()" "layout gap_sample = Inr ()"
  by (simp_all add: layout_def col_def sample_columns and_then_def slider_range_def
      year_dropdown_def storm_sample_def gap_sample_def sample_row_def)


lemma startup_storm: "fst (startup frepr0 (fwf_yields storm_rows)) = Inr (BuildView storm_sample)"
proof -
  have "\<not> df_empty storm_sample" by (simp add: df_empty_def storm_sample_def)
  with add_datetime_storm layout_samples(1) show ?thesis
    by (simp add: startup_def read_data_def read_body_def fwf_yields_def Let_def)
qed









subsection \<open>Presentation\<close>

lemma nat_str_small: "n < 10 \<Longrightarrow> nat_str n = [digit_char n]"
  by (simp add: nat_str.simps)

lemma nat_str_large: "10 \<le> n \<Longrightarrow> nat_str n = nat_str (n div 10) @ [digit_char (n mod 10)]"
  by (subst nat_str.simps) simp

lemma digit_char_0: "digit_char 0 = CHR ''0''"
  by (simp add: digit_char_def)

lemma replicate_2_3: "replicate 2 x = [x, x]" "replicate 3 x = [x, x, x]"
  by (simp_all add: numeral_2_eq_2 numeral_3_eq_3)

lemma nat_str_two: "10 \<le> n \<Longrightarrow> n < 100 \<Longrightarrow> nat_str n = [digit_char (n div 10), digit_char (n mod 10)]"
  by (simp add: nat_str_large nat_str_small)

lemma zfill2: "n < 100 \<Longrightarrow> zfill 2 (nat_str n) = two_digits n"
  by (cases "n < 10")
    (simp_all add: nat_str_small nat_str_two zfill_def two_digits_def digit_char_0)

lemma div_div_10: "n div 10 div 10 = n div 100" "n div 100 div 10 = n div 1000" for n :: nat
  by (simp_all add: div_mult2_eq [symmetric])

lemma zfill4:
  assumes "n < 10000"
  shows "zfill 4 (nat_str n) =
    [digit_char (n div 1000), digit_char (n div 100 mod 10), digit_char (n div 10 mod 10),
     digit_char (n mod 10)]"
proof -
  consider "n < 10" | "10 \<le> n" "n < 100" | "100 \<le> n" "n < 1000" | "1000 \<le> n"
    by linarith
  then show ?thesis
  proof cases
    case 1
    then show ?thesis
      by (simp add: nat_str_small zfill_def digit_char_0 replicate_2_3)
  next
    case 2
    then have "n div 100 = 0" "n div 1000 = 0" by auto
    with 2 show ?thesis
      by (simp add: nat_str_two zfill_def digit_char_0 replicate_2_3)
  next
    case 3
    then have s1: "nat_str n = nat_str (n div 10) @ [digit_char (n mod 10)]"
      by (simp add: nat_str_large)
    from 3 have "10 \<le> n div 10" "n div 10 < 100" by auto
    then have s2: "nat_str (n div 10) = [digit_char (n div 100), digit_char (n div 10 mod 10)]"
      using nat_str_two [of "n div 10"] by (simp add: div_div_10)
    from 3 have "n div 1000 = 0" "n div 100 mod 10 = n div 100" by auto
    then show ?thesis
      by (simp add: s1 s2 zfill_def digit_char_0)
  next
    case 4
    then have s1: "nat_str n = nat_str (n div 10) @ [digit_char (n mod 10)]"
      by (simp add: nat_str_large)
    from 4 have "10 \<le> n div 10" by auto
    then have s2: "nat_str (n div 10) = nat_str (n div 100) @ [digit_char (n div 10 mod 10)]"
      using nat_str_large [of "n div 10"] by (simp add: div_div_10)
    from 4 assms have "10 \<le> n div 100" "n div 100 < 100" by auto
    then have s3: "nat_str (n div 100) = [digit_char (n div 1000), digit_char (n div 100 mod 10)]"
      using nat_str_two [of "n div 100"] by (simp add: div_div_10)
    show ?thesis
      by (simp add: s1 s2 s3 zfill_def)
  qed
qed

lemma strftime_shape: "wf_timestamp t \<Longrightarrow> strftime t = ymd_hm t"
  by (simp add: wf_timestamp_def strftime_def ymd_hm_def zfill2 zfill4)

lemma scatter3d_trace_cols:
  assumes "index_of ''BX'' (columns fd) = Some bx"
    and "index_of ''BY'' (columns fd) = Some by"
    and "index_of ''BZ'' (columns fd) = Some bz"
    and "index_of ''Field_Magnitude_Avg'' (columns fd) = Some j"
    and "index_of ''DateTime'' (columns fd) = Some dt"
    and "\<forall>r\<in>set (rows fd). is_time (r ! dt)"
  shows "scatter3d_trace fd =
     Inr \<lparr>scatter_x = map (\<lambda>r. r ! bx) (rows fd), scatter_y = map (\<lambda>r. r ! by) (rows fd),
          scatter_z = map (\<lambda>r. r ! bz) (rows fd), marker_size = 5,
          marker_color = map (\<lambda>r. r ! j) (rows fd), colorscale = ''Viridis'',
          showscale = True, hover_text = map (\<lambda>r. hover_label (r ! dt)) (rows fd)\<rparr>"
  using assms
  by (simp add: scatter3d_trace_def col_def and_then_def dt_strftime_def list_all_iff)

text \<open>
  C7. On a frame that has the columns BX, BY, BZ, Field_Magnitude_Avg and a datetime column
  DateTime, the trace holds one point per record, in the order of the records: the k-th
  coordinates, colour and label come from the k-th record. The colours are the records'
  FieldMagnitudeAvg values. A frame without records yields a trace without points, not an
  error.
\<close>

theorem scatter3d_trace_points:
  assumes "index_of ''BX'' (columns fd) = Some bx"
    and "index_of ''BY'' (columns fd) = Some by"
    and "index_of ''BZ'' (columns fd) = Some bz"
    and "index_of ''Field_Magnitude_Avg'' (columns fd) = Some j"
    and "index_of ''DateTime'' (columns fd) = Some dt"
    and "\<forall>r\<in>set (rows fd). is_time (r ! dt)"
  shows "\<exists>sc. scatter3d_trace fd = Inr sc
           \<and> length (scatter_x sc) = length (rows fd) \<and> length (scatter_y sc) = length (rows fd)
           \<and> length (scatter_z sc) = length (rows fd) \<and> length (marker_color sc) = length (rows fd)
           \<and> length (hover_text sc) = length (rows fd)
           \<and> (\<forall>k<length (rows fd).
                 scatter_x sc ! k = rows fd ! k ! bx \<and> scatter_y sc ! k = rows fd ! k ! by
               \<and> scatter_z sc ! k = rows fd ! k ! bz \<and> marker_color sc ! k = rows fd ! k ! j
               \<and> hover_text sc ! k = hover_label (rows fd ! k ! dt))
           \<and> set (marker_color sc) = (\<lambda>r. r ! j) ` set (rows fd)
           \<and> (rows fd = [] \<longrightarrow>
                 scatter_x sc = [] \<and> scatter_y sc = [] \<and> scatter_z sc = []
               \<and> marker_color sc = [] \<and> hover_text sc = [])"
  by (simp add: scatter3d_trace_cols [OF assms])

theorem scatter3d_trace_points_witness:
  "index_of ''BX'' (columns storm_sample) = Some 5
   \<and> index_of ''BY'' (columns storm_sample) = Some 6
   \<and> index_of ''BZ'' (columns storm_sample) = Some 7
   \<and> index_of ''Field_Magnitude_Avg'' (columns storm_sample) = Some 4
   \<and> index_of ''DateTime'' (columns storm_sample) = Some 19
   \<and> list_all (\<lambda>r. is_time (r ! 19)) (rows storm_sample)
   \<and> (\<exists>sc. scatter3d_trace storm_sample = Inr sc \<and> length (scatter_x sc) = 3
          \<and> marker_color sc = [FloatV (Fin 5.2), FloatV (Fin 7.5), FloatV (Fin 3)])
   \<and> (\<exists>sc. scatter3d_trace (storm_sample\<lparr>rows := []\<rparr>) = Inr sc \<and> scatter_x sc = []
          \<and> marker_color sc = [] \<and> hover_text sc = [])"
proof -
  have h: "index_of ''BX'' (columns storm_sample) = Some 5"
    "index_of ''BY'' (columns storm_sample) = Some 6"
    "index_of ''BZ'' (columns storm_sample) = Some 7"
    "index_of ''Field_Magnitude_Avg'' (columns storm_sample) = Some 4"
    "index_of ''DateTime'' (columns storm_sample) = Some 19"
    by (simp_all add: storm_sample_def sample_columns)
  have t: "\<forall>r\<in>set (rows storm_sample). is_time (r ! 19)"
    by (simp add: storm_sample_def sample_row_def)
  have e: "\<forall>r\<in>set (rows (storm_sample\<lparr>rows := []\<rparr>)). is_time (r ! 19)" by simp
  from scatter3d_trace_points [OF h t] obtain sc
    where sc: "scatter3d_trace storm_sample = Inr sc"
      and len: "length (scatter_x sc) = length (rows storm_sample)"
    by blast
  from sc scatter3d_trace_cols [OF h t]
  have "marker_color sc = map (\<lambda>r. r ! 4) (rows storm_sample)" by auto
  then have "marker_color sc = [FloatV (Fin 5.2), FloatV (Fin 7.5), FloatV (Fin 3)]"
    by (simp add: storm_sample_def sample_row_def)
  moreover from len have "length (scatter_x sc) = 3" by (simp add: storm_sample_def)
  ultimately
  have a: "\<exists>sc. scatter3d_trace storm_sample = Inr sc \<and> length (scatter_x sc) = 3
          \<and> marker_color sc = [FloatV (Fin 5.2), FloatV (Fin 7.5), FloatV (Fin 3)]"
    using sc by blast
  from scatter3d_trace_points [of "storm_sample\<lparr>rows := []\<rparr>" 5 6 7 4 19] h
  have b: "\<exists>sc. scatter3d_trace (storm_sample\<lparr>rows := []\<rparr>) = Inr sc \<and> scatter_x sc = []
          \<and> marker_color sc = [] \<and> hover_text sc = []"
    by auto
  from h t a b show ?thesis by (simp add: list_all_iff)
qed

text \<open>
  C5, as stated, fails: the third record of \<open>storm_sample\<close> has a null DateTime, and its
  hover label is the missing value NaN, not a string; the script substitutes no sentinel
  text.
\<close>

theorem hover_label_counterexample:
  "map_sum id hover_text (scatter3d_trace storm_sample) =
     Inr [StrV ''2024-05-10 12:00'', StrV ''2024-05-10 12:30'', FloatV NaN]
   \<and> rows storm_sample ! 2 ! 19 = TimeV None
   \<and> \<not> is_str (FloatV NaN)"
proof -
  have h: "index_of ''BX'' (columns storm_sample) = Some 5"
    "index_of ''BY'' (columns storm_sample) = Some 6"
    "index_of ''BZ'' (columns storm_sample) = Some 7"
    "index_of ''Field_Magnitude_Avg'' (columns storm_sample) = Some 4"
    "index_of ''DateTime'' (columns storm_sample) = Some 19"
    by (simp_all add: storm_sample_def sample_columns)
  have t: "\<forall>r\<in>set (rows storm_sample). is_time (r ! 19)"
    by (simp add: storm_sample_def sample_row_def)
  have w: "wf_timestamp (may10 12 0)" "wf_timestamp (may10 12 30)"
    by (simp_all add: wf_timestamp_def may10_def)
  have "ymd_hm (may10 12 0) = ''2024-05-10 12:00''" "ymd_hm (may10 12 30) = ''2024-05-10 12:30''"
    by (simp_all add: ymd_hm_def two_digits_def may10_def digit_char_def)
  with strftime_shape [OF w(1)] strftime_shape [OF w(2)]
  have s: "strftime (may10 12 0) = ''2024-05-10 12:00''"
    "strftime (may10 12 30) = ''2024-05-10 12:30''"
    by simp_all
  have "map (\<lambda>r. hover_label (r ! 19)) (rows storm_sample) =
      [StrV ''2024-05-10 12:00'', StrV ''2024-05-10 12:30'', FloatV NaN]"
    by (simp add: storm_sample_def sample_row_def s)
  moreover have "rows storm_sample ! 2 ! 19 = TimeV None"
    by (simp add: storm_sample_def sample_row_def)
  ultimately show ?thesis
    by (simp add: scatter3d_trace_cols [OF h t])
qed

text \<open>
  C5, amended. The hover label of a record is its DateTime formatted by
  \<^verbatim>\<open>%Y-%m-%d %H:%M\<close>, which for a calendar timestamp is \<^verbatim>\<open>YYYY-MM-DD HH:MM\<close>, when
  the DateTime is not null, and is the missing value NaN when the DateTime is null.
\<close>

theorem hover_label_format:
  assumes "index_of ''BX'' (columns fd) = Some bx"
    and "index_of ''BY'' (columns fd) = Some by"
    and "index_of ''BZ'' (columns fd) = Some bz"
    and "index_of ''Field_Magnitude_Avg'' (columns fd) = Some j"
    and "index_of ''DateTime'' (columns fd) = Some dt"
    and "\<forall>r\<in>set (rows fd). is_time (r ! dt)"
  shows "\<exists>sc. scatter3d_trace fd = Inr sc \<and> length (hover_text sc) = length (rows fd)
           \<and> (\<forall>k<length (rows fd).
                 (\<forall>t. rows fd ! k ! dt = TimeV (Some t) \<longrightarrow>
                        hover_text sc ! k = StrV (strftime t)
                      \<and> (wf_timestamp t \<longrightarrow> strftime t = ymd_hm t))
               \<and> (rows fd ! k ! dt = TimeV None \<longrightarrow> hover_text sc ! k = FloatV NaN))"
  by (simp add: scatter3d_trace_cols [OF assms] strftime_shape)

theorem hover_label_format_witness:
  "index_of ''BX'' (columns storm_sample) = Some 5
   \<and> index_of ''BY'' (columns storm_sample) = Some 6
   \<and> index_of ''BZ'' (columns storm_sample) = Some 7
   \<and> index_of ''Field_Magnitude_Avg'' (columns storm_sample) = Some 4
   \<and> index_of ''DateTime'' (columns storm_sample) = Some 19
   \<and> list_all (\<lambda>r. is_time (r ! 19)) (rows storm_sample)
   \<and> rows storm_sample ! 0 ! 19 = TimeV (Some (may10 12 0)) \<and> wf_timestamp (may10 12 0)
   \<and> rows storm_sample ! 2 ! 19 = TimeV None
   \<and> (\<exists>sc. scatter3d_trace storm_sample = Inr sc
          \<and> hover_text sc ! 0 = StrV ''2024-05-10 12:00'' \<and> hover_text sc ! 2 = FloatV NaN)"
proof -
  have h: "index_of ''BX'' (columns storm_sample) = Some 5"
    "index_of ''BY'' (columns storm_sample) = Some 6"
    "index_of ''BZ'' (columns storm_sample) = Some 7"
    "index_of ''Field_Magnitude_Avg'' (columns storm_sample) = Some 4"
    "index_of ''DateTime'' (columns storm_sample) = Some 19"
    by (simp_all add: storm_sample_def sample_columns)
  have t: "\<forall>r\<in>set (rows storm_sample). is_time (r ! 19)"
    by (simp add: storm_sample_def sample_row_def)
  have c: "rows storm_sample ! 0 ! 19 = TimeV (Some (may10 12 0))"
    "rows storm_sample ! 2 ! 19 = TimeV None" "length (rows storm_sample) = 3"
    by (simp_all add: storm_sample_def sample_row_def)
  have w: "wf_timestamp (may10 12 0)"
    by (simp add: wf_timestamp_def may10_def)
  have y: "ymd_hm (may10 12 0) = ''2024-05-10 12:00''"
    by (simp add: ymd_hm_def two_digits_def may10_def digit_char_def)
  from hover_label_format [OF h t] obtain sc where sc: "scatter3d_trace storm_sample = Inr sc"
    and k: "\<forall>k<length (rows storm_sample).
                 (\<forall>t. rows storm_sample ! k ! 19 = TimeV (Some t) \<longrightarrow>
                        hover_text sc ! k = StrV (strftime t)
                      \<and> (wf_timestamp t \<longrightarrow> strftime t = ymd_hm t))
               \<and> (rows storm_sample ! k ! 19 = TimeV None \<longrightarrow> hover_text sc ! k = FloatV NaN)"
    by blast
  from k c have "hover_text sc ! 0 = StrV (strftime (may10 12 0))"
    by simp
  with strftime_shape [OF w] y have l0: "hover_text sc ! 0 = StrV ''2024-05-10 12:00''" by simp
  from k c have l2: "hover_text sc ! 2 = FloatV NaN" by simp
  from sc l0 l2
  have "\<exists>sc. scatter3d_trace storm_sample = Inr sc
          \<and> hover_text sc ! 0 = StrV ''2024-05-10 12:00'' \<and> hover_text sc ! 2 = FloatV NaN"
    by blast
  with h t c(1,2) w show ?thesis by (simp add: list_all_iff)
qed

subsection \<open>Parser: failure and start of the script\<close>

lemma read_data_raise:
  "read_fwf lst_file column_names = Inl e \<Longrightarrow>
   read_data frepr read_fwf lst_file out0 =
     (Inr empty_frame, out0 @ [Line (''Error reading the LST file: '' @ exn_str e)])"
  by (simp add: read_data_def read_body_def)

lemma read_data_returns: "\<exists>df out. read_data frepr read_fwf lst_file out0 = (Inr df, out)"
  by (simp add: read_data_def read_body_def Let_def split: sum.splits)

lemma startup_view:
  "startup frepr rf = (Inr (BuildView sd), out) \<Longrightarrow>
     \<not> df_empty sd \<and> read_data frepr rf lst_file_path [] = (Inr sd, out)"
  by (auto simp: startup_def split: prod.splits sum.splits if_splits)

text \<open>
  C3, as stated, fails in its second trigger: the script has no check of the field count.
  A line that holds only the first five fields is no error for the library's reader, which
  fills the fields that are missing with NaN (\<open>short_line_row\<close>); \<open>read_data\<close> returns
  the frame of that one record, with its DateTime, and the script builds the view on it.
\<close>

theorem field_count_counterexample:
  "fst (read_data frepr0 (fwf_yields [short_line_row]) lst_file_path []) =
     Inr \<lparr>columns = column_names @ [''DateTime''],
          rows = [short_line_row @ [TimeV (Some (may10 12 0))]]\<rparr>
   \<and> fst (startup frepr0 (fwf_yields [short_line_row])) =
     Inr (BuildView \<lparr>columns = column_names @ [''DateTime''],
                     rows = [short_line_row @ [TimeV (Some (may10 12 0))]]\<rparr>)
   \<and> drop 5 short_line_row = replicate 14 (FloatV NaN)"
proof -
  let ?df = "\<lparr>columns = column_names @ [''DateTime''],
          rows = [short_line_row @ [TimeV (Some (may10 12 0))]]\<rparr>"
  have a: "add_datetime frepr0 \<lparr>columns = column_names, rows = [short_line_row]\<rparr> = Inr ?df"
    by (simp add: add_datetime_eval short_line_row_def)
      (simp add: column_names_def datetime_eval str_eval)
  have l: "layout ?df = Inr ()"
    by (simp add: layout_def col_def sample_columns and_then_def slider_range_def
        year_dropdown_def short_line_row_def)
  have e: "\<not> df_empty ?df" by (simp add: df_empty_def)
  have d: "drop 5 short_line_row = replicate 14 (FloatV NaN)"
    by (simp add: short_line_row_def numeral_eq_Suc)
  from a l e d show ?thesis
    by (simp add: startup_def read_data_def read_body_def fwf_yields_def Let_def)
qed

text \<open>
  C3, amended. When the library's reader raises on the input file (the file cannot be opened
  or read, or the reader rejects it), \<open>read_data\<close> yields the empty frame and prints the
  error, the script prints that the frame is empty, and the view is not built; whenever
  the script does build the view, the frame returned by \<open>read_data\<close> is not empty.
\<close>

theorem dataset_unavailable:
  assumes "read_fwf lst_file_path column_names = Inl e"
  shows "read_data frepr read_fwf lst_file_path [] =
           (Inr empty_frame, [Line (''Error reading the LST file: '' @ exn_str e)])
         \<and> startup frepr read_fwf =
           (Inr NoView,
            [Line (''Error reading the LST file: '' @ exn_str e),
             Line ''The DataFrame is empty. Please check the LST file format.''])
         \<and> (\<forall>sd out. startup frepr rf = (Inr (BuildView sd), out) \<longrightarrow>
               \<not> df_empty sd \<and> read_data frepr rf lst_file_path [] = (Inr sd, out))"
proof -
  have "read_data frepr read_fwf lst_file_path [] =
      (Inr empty_frame, [] @ [Line (''Error reading the LST file: '' @ exn_str e)])"
    using assms by (rule read_data_raise)
  then show ?thesis
    using startup_view [of frepr rf]
    by (simp add: startup_def empty_frame_def df_empty_def)
qed

theorem dataset_unavailable_witness:
  "fwf_fails ''No such file or directory'' lst_file_path column_names =
     Inl (LibraryError ''No such file or directory'')
   \<and> read_data frepr0 (fwf_fails ''No such file or directory'') lst_file_path [] =
       (Inr empty_frame, [Line ''Error reading the LST file: No such file or directory''])
   \<and> startup frepr0 (fwf_fails ''No such file or directory'') =
       (Inr NoView,
        [Line ''Error reading the LST file: No such file or directory'',
         Line ''The DataFrame is empty. Please check the LST file format.''])
   \<and> fst (startup frepr0 (fwf_yields storm_rows)) = Inr (BuildView storm_sample)
   \<and> \<not> df_empty storm_sample"
proof -
  have m: "fwf_fails ''No such file or directory'' lst_file_path column_names =
     Inl (LibraryError ''No such file or directory'')"
    by (simp add: fwf_fails_def)
  obtain out where g: "startup frepr0 (fwf_yields storm_rows) = (Inr (BuildView storm_sample), out)"
    using startup_storm by (cases "startup frepr0 (fwf_yields storm_rows)") simp
  from m g dataset_unavailable [where read_fwf = "fwf_fails ''No such file or directory''"
      and e = "LibraryError ''No such file or directory''" and frepr = frepr0
      and rf = "fwf_yields storm_rows"]
  have "read_data frepr0 (fwf_fails ''No such file or directory'') lst_file_path [] =
       (Inr empty_frame, [Line ''Error reading the LST file: No such file or directory''])"
    and "startup frepr0 (fwf_fails ''No such file or directory'') =
       (Inr NoView,
        [Line ''Error reading the LST file: No such file or directory'',
         Line ''The DataFrame is empty. Please check the LST file format.''])"
    and "\<not> df_empty storm_sample"
    by simp_all
  with m startup_storm show ?thesis by simp
qed

lemma add_datetime_no_rows:
  "rows data = [] \<Longrightarrow> add_datetime frepr data = Inr d \<Longrightarrow> rows d = []"
  by (auto simp: add_datetime_def and_then_def col_def set_column_def
      split: option.splits if_splits)

text \<open>
  C10. \<open>read_data\<close> returns a frame for every path and every behaviour of the reader and
  never passes an exception on: an exception of the reader, or of the DateTime derivation,
  is mapped to the empty frame. A file read successfully with zero rows gives a frame
  without records as well, so in both cases the dataset is empty and the script ends
  without building the view.
\<close>

theorem read_data_never_raises:
  "(\<exists>df out. read_data frepr read_fwf lst_file out0 = (Inr df, out))
   \<and> (\<forall>e. read_fwf lst_file column_names = Inl e \<longrightarrow>
          fst (read_data frepr read_fwf lst_file out0) = Inr empty_frame)
   \<and> (\<forall>data e. read_fwf lst_file column_names = Inr data \<and> add_datetime frepr data = Inl e \<longrightarrow>
          fst (read_data frepr read_fwf lst_file out0) = Inr empty_frame)
   \<and> (\<forall>data. read_fwf lst_file column_names = Inr data \<and> rows data = [] \<longrightarrow>
          (\<exists>df. fst (read_data frepr read_fwf lst_file out0) = Inr df \<and> rows df = []
                \<and> df_empty df))
   \<and> (rows empty_frame = [] \<and> df_empty empty_frame)
   \<and> ((\<exists>e. read_fwf lst_file_path column_names = Inl e) \<or>
       (\<exists>data. read_fwf lst_file_path column_names = Inr data \<and> rows data = []) \<longrightarrow>
          fst (startup frepr read_fwf) = Inr NoView)"
proof -
  have a: "\<exists>df out. read_data frepr read_fwf lst_file out0 = (Inr df, out)"
    by (rule read_data_returns)
  have b: "fst (read_data frepr rf lf o0) = Inr empty_frame"
    if "rf lf column_names = Inl e" for e rf lf o0
    using that by (simp add: read_data_def read_body_def)
  have c: "fst (read_data frepr read_fwf lst_file out0) = Inr empty_frame"
    if "read_fwf lst_file column_names = Inr data" "add_datetime frepr data = Inl e" for data e
    using that by (simp add: read_data_def read_body_def Let_def)
  have d: "\<exists>df. fst (read_data frepr rf lf o0) = Inr df \<and> rows df = [] \<and> df_empty df"
    if "rf lf column_names = Inr data" "rows data = []" for data rf lf o0
  proof (cases "add_datetime frepr data")
    case (Inl e)
    with that show ?thesis
      by (simp add: read_data_def read_body_def Let_def empty_frame_def df_empty_def)
  next
    case (Inr d')
    with that add_datetime_no_rows [of data frepr d'] show ?thesis
      by (simp add: read_data_def read_body_def Let_def df_empty_def)
  qed
  have e: "rows empty_frame = [] \<and> df_empty empty_frame"
    by (simp add: empty_frame_def df_empty_def)
  have f: "fst (startup frepr read_fwf) = Inr NoView"
    if "(\<exists>e. read_fwf lst_file_path column_names = Inl e) \<or>
       (\<exists>data. read_fwf lst_file_path column_names = Inr data \<and> rows data = [])"
  proof -
    from that have "\<exists>df. fst (read_data frepr read_fwf lst_file_path []) = Inr df \<and> df_empty df"
    proof (elim disjE exE conjE)
      fix x
      assume "read_fwf lst_file_path column_names = Inl x"
      then have "fst (read_data frepr read_fwf lst_file_path []) = Inr empty_frame"
        by (rule b)
      with e show ?thesis by blast
    next
      fix data
      assume "read_fwf lst_file_path column_names = Inr data" "rows data = []"
      then have "\<exists>df. fst (read_data frepr read_fwf lst_file_path []) = Inr df \<and> rows df = []
          \<and> df_empty df"
        by (rule d)
      then show ?thesis by blast
    qed
    then show ?thesis
      by (auto simp: startup_def split: prod.splits sum.splits)
  qed
  from a b c d e f show ?thesis by blast
qed

theorem read_data_never_raises_witness:
  "fwf_fails ''Permission denied'' lst_file_path column_names =
     Inl (LibraryError ''Permission denied'')
   \<and> fst (read_data frepr0 (fwf_fails ''Permission denied'') lst_file_path []) = Inr empty_frame
   \<and> fst (startup frepr0 (fwf_fails ''Permission denied'')) = Inr NoView
   \<and> foreign_frame lst_file_path column_names = Inr \<lparr>columns = [''Epoch''], rows = [[IntV 1]]\<rparr>
   \<and> add_datetime frepr0 \<lparr>columns = [''Epoch''], rows = [[IntV 1]]\<rparr> = Inl (KeyError ''Year'')
   \<and> fst (read_data frepr0 foreign_frame lst_file_path []) = Inr empty_frame
   \<and> fwf_yields [] lst_file_path column_names = Inr \<lparr>columns = column_names, rows = []\<rparr>
   \<and> rows \<lparr>columns = column_names, rows = []\<rparr> = []
   \<and> (\<exists>df. fst (read_data frepr0 (fwf_yields []) lst_file_path []) = Inr df \<and> rows df = []
          \<and> df_empty df)
   \<and> fst (startup frepr0 (fwf_yields [])) = Inr NoView"
proof -
  have f: "fwf_fails ''Permission denied'' lst_file_path column_names =
     Inl (LibraryError ''Permission denied'')"
    by (simp add: fwf_fails_def)
  have g: "foreign_frame lst_file_path column_names =
      Inr \<lparr>columns = [''Epoch''], rows = [[IntV 1]]\<rparr>"
    "add_datetime frepr0 \<lparr>columns = [''Epoch''], rows = [[IntV 1]]\<rparr> = Inl (KeyError ''Year'')"
    by (simp_all add: foreign_frame_def add_datetime_def col_def and_then_def)
  have z: "fwf_yields [] lst_file_path column_names = Inr \<lparr>columns = column_names, rows = []\<rparr>"
    "rows \<lparr>columns = column_names, rows = []\<rparr> = []"
    by (simp_all add: fwf_yields_def)
  from f read_data_never_raises [where read_fwf = "fwf_fails ''Permission denied''"
      and frepr = frepr0 and lst_file = lst_file_path and ?out0.0 = "[]"]
  have a: "fst (read_data frepr0 (fwf_fails ''Permission denied'') lst_file_path []) =
      Inr empty_frame"
    "fst (startup frepr0 (fwf_fails ''Permission denied'')) = Inr NoView"
    by blast+
  from g read_data_never_raises [where read_fwf = foreign_frame
      and frepr = frepr0 and lst_file = lst_file_path and ?out0.0 = "[]"]
  have b: "fst (read_data frepr0 foreign_frame lst_file_path []) = Inr empty_frame"
    by blast
  from z read_data_never_raises [where read_fwf = "fwf_yields []"
      and frepr = frepr0 and lst_file = lst_file_path and ?out0.0 = "[]"]
  have c: "\<exists>df. fst (read_data frepr0 (fwf_yields []) lst_file_path []) = Inr df \<and> rows df = []
          \<and> df_empty df"
    "fst (startup frepr0 (fwf_yields [])) = Inr NoView"
    by blast+
  from f g z a b c show ?thesis by simp
qed

subsection \<open>Parser: records and fields\<close>

lemma length_column_names: "length column_names = 19"
  by (simp add: column_names_def)



lemma length_astype_str: "length (astype_str frepr c) = length c"
  by (simp add: astype_str_def split: dtype.splits)

lemma length_agg_join:
  "length ys = n \<Longrightarrow> length ds = n \<Longrightarrow> length hs = n \<Longrightarrow> length ms = n \<Longrightarrow>
   length (agg_join ys ds hs ms) = n"
  by (simp add: agg_join_def)

lemma add_datetime_schema:
  assumes "columns data = column_names" and "rows data \<noteq> []"
  shows "\<exists>vs. length vs = length (rows data) \<and>
     vs = to_datetime (agg_join (astype_str frepr (map (\<lambda>r. r ! 0) (rows data)))
                                (astype_str frepr (map (\<lambda>r. r ! 1) (rows data)))
                                (astype_str frepr (map (\<lambda>r. r ! 2) (rows data)))
                                (astype_str frepr (map (\<lambda>r. r ! 3) (rows data)))) \<and>
     add_datetime frepr data =
       Inr \<lparr>columns = column_names @ [''DateTime''],
            rows = map2 (\<lambda>r v. r @ [v]) (rows data) vs\<rparr>"
  using assms
  by (simp add: add_datetime_def col_def names_columns and_then_def set_column_def
      to_datetime_def length_agg_join length_astype_str)

lemma read_data_no_rows:
  assumes "read_fwf lst_file column_names = Inr data" and "rows data = []"
  shows "\<exists>df out. read_data frepr read_fwf lst_file out0 = (Inr df, out) \<and> rows df = []"
proof (cases "add_datetime frepr data")
  case (Inl e)
  with assms show ?thesis
    by (simp add: read_data_def read_body_def Let_def empty_frame_def)
next
  case (Inr d)
  with assms add_datetime_no_rows [of data frepr d] show ?thesis
    by (simp add: read_data_def read_body_def Let_def)
qed

lemma read_data_schema:
  assumes "read_fwf lst_file column_names = Inr data" and "columns data = column_names"
    and "rows data \<noteq> []"
  shows "\<exists>vs out. length vs = length (rows data) \<and>
     read_data frepr read_fwf lst_file out0 =
       (Inr \<lparr>columns = column_names @ [''DateTime''],
             rows = map2 (\<lambda>r v. r @ [v]) (rows data) vs\<rparr>, out)"
proof -
  from add_datetime_schema [OF assms(2,3), of frepr] obtain vs
    where "length vs = length (rows data)"
      and "add_datetime frepr data =
       Inr \<lparr>columns = column_names @ [''DateTime''],
            rows = map2 (\<lambda>r v. r @ [v]) (rows data) vs\<rparr>"
    by blast
  with assms(1) show ?thesis
    by (intro exI [of _ vs]) (simp add: read_data_def read_body_def Let_def)
qed

lemma read_fwf_spec_valid:
  assumes "fs lst_file = Text lines" and "list_all (\<lambda>l. length (line_fields l) = 19) lines"
  shows "read_fwf_spec decode fs lst_file column_names =
     Inr \<lparr>columns = column_names, rows = map (\<lambda>l. map decode (line_fields l)) lines\<rparr>"
  using assms by (simp add: read_fwf_spec_def length_column_names)

text \<open>
  C4. For a valid input file, one whose every line has the nineteen fields of the schema,
  \<open>read_data\<close> returns a dataset with as many records as the file has lines: no line
  is dropped or merged.
\<close>

theorem parse_one_record_per_line:
  assumes "fs lst_file = Text lines" and "list_all (\<lambda>l. length (line_fields l) = 19) lines"
  shows "\<exists>df out. read_data frepr (read_fwf_spec decode fs) lst_file out0 = (Inr df, out)
           \<and> length (rows df) = length lines"
proof -
  let ?d = "\<lparr>columns = column_names, rows = map (\<lambda>l. map decode (line_fields l)) lines\<rparr>"
  have r: "read_fwf_spec decode fs lst_file column_names = Inr ?d"
    using assms by (rule read_fwf_spec_valid)
  show ?thesis
  proof (cases "lines = []")
    case True
    with r read_data_no_rows [where read_fwf = "read_fwf_spec decode fs" and lst_file = lst_file
      and data = ?d and frepr = frepr and ?out0.0 = out0]
    show ?thesis by auto
  next
    case False
    with r read_data_schema [where read_fwf = "read_fwf_spec decode fs" and lst_file = lst_file
      and data = ?d and frepr = frepr and ?out0.0 = out0]
    show ?thesis by auto
  qed
qed


lemma omni_lines_fields:
  "line_fields omni_line_1 =
     [''2024'', ''131'', ''12'', ''0'', ''5'', ''3'', ''1'', ''4'', ''400'', ''5'', ''100000'',
      ''1'', ''1'', ''8'', ''150'', ''90'', ''60'', ''3'', ''20'']"
  "line_fields omni_line_2 =
     [''2024'', ''131'', ''12'', ''30'', ''7'', ''2'', ''0'', ''5'', ''410'', ''6'', ''110000'',
      ''1'', ''1'', ''9'', ''160'', ''95'', ''65'', ''2'', ''25'']"
  by (simp_all add: line_fields_def omni_line_1_def omni_line_2_def)

theorem parse_one_record_per_line_witness:
  "two_line_file lst_file_path = Text [omni_line_1, omni_line_2]
   \<and> list_all (\<lambda>l. length (line_fields l) = 19) [omni_line_1, omni_line_2]
   \<and> (\<exists>df out. read_data frepr0 (read_fwf_spec decode_int two_line_file) lst_file_path [] =
          (Inr df, out) \<and> length (rows df) = 2)"
proof -
  have f: "two_line_file lst_file_path = Text [omni_line_1, omni_line_2]"
    by (simp add: two_line_file_def)
  have v: "list_all (\<lambda>l. length (line_fields l) = 19) [omni_line_1, omni_line_2]"
    by (simp add: omni_lines_fields)
  from parse_one_record_per_line [where fs = two_line_file and lst_file = lst_file_path,
      OF f v, of frepr0 decode_int "[]"]
  have "\<exists>df out. read_data frepr0 (read_fwf_spec decode_int two_line_file) lst_file_path [] =
          (Inr df, out) \<and> length (rows df) = 2"
    by (simp add: numeral_2_eq_2)
  with f v show ?thesis by simp
qed



subsection \<open>Parser: the derived timestamp\<close>

text \<open>
  C2. The claim does not hold of the code. The second record of \<open>day_gap_rows\<close> has the
  valid combination (2024, 131, 12, 0) and, read alone, gets the DateTime 2024-05-10 12:00.
  Read together with a record whose Day field is blank, its DateTime is null as well: the
  missing value makes the Day column \<^verbatim>\<open>float64\<close>, \<^verbatim>\<open>astype(str)\<close> then prints every Day
  as \<^verbatim>\<open>131.0\<close>, and the format rejects it, so one bad row nulls every row. In the other
  direction, the combination (2023, 366, 0, 0) is no ordinal date (2023 has 365 days), and
  the code gives it the DateTime 2024-01-01 00:00 instead of null.
\<close>

theorem missing_day_nulls_every_row:
  "fst (read_data frepr0 (fwf_yields (tl day_gap_rows)) lst_file_path []) =
     Inr \<lparr>columns = column_names @ [''DateTime''],
          rows = [day_gap_rows ! 1 @ [TimeV (Some (may10 12 0))]]\<rparr>
   \<and> fst (read_data frepr0 (fwf_yields day_gap_rows) lst_file_path []) =
     Inr \<lparr>columns = column_names @ [''DateTime''],
          rows = [day_gap_rows ! 0 @ [TimeV None], day_gap_rows ! 1 @ [TimeV None]]\<rparr>
   \<and> fst (read_data frepr0 (fwf_yields day_366_rows) lst_file_path []) =
     Inr \<lparr>columns = column_names @ [''DateTime''],
          rows = [day_366_rows ! 0 @
            [TimeV (Some \<lparr>ts_year = 2024, ts_month = 1, ts_day = 1, ts_hour = 0,
                            ts_minute = 0\<rparr>)]]\<rparr>
   \<and> sum_list (month_lengths 2023) = 365"
proof -
  have a: "add_datetime frepr0 \<lparr>columns = column_names, rows = tl day_gap_rows\<rparr> =
     Inr \<lparr>columns = column_names @ [''DateTime''],
          rows = [day_gap_rows ! 1 @ [TimeV (Some (may10 12 0))]]\<rparr>"
    by (simp add: add_datetime_eval day_gap_rows_def)
      (simp add: datetime_eval str_eval)
  have b: "add_datetime frepr0 \<lparr>columns = column_names, rows = day_gap_rows\<rparr> =
     Inr \<lparr>columns = column_names @ [''DateTime''],
          rows = [day_gap_rows ! 0 @ [TimeV None], day_gap_rows ! 1 @ [TimeV None]]\<rparr>"
    by (simp add: add_datetime_eval day_gap_rows_def)
      (simp add: datetime_eval str_eval)
  have c: "add_datetime frepr0 \<lparr>columns = column_names, rows = day_366_rows\<rparr> =
     Inr \<lparr>columns = column_names @ [''DateTime''],
          rows = [day_366_rows ! 0 @
            [TimeV (Some \<lparr>ts_year = 2024, ts_month = 1, ts_day = 1, ts_hour = 0,
                            ts_minute = 0\<rparr>)]]\<rparr>"
    by (simp add: add_datetime_eval day_366_rows_def)
      (simp add: datetime_eval str_eval)
  have d: "sum_list (month_lengths 2023) = 365"
    by (simp add: month_lengths_def is_leap_def)
  from a b c d show ?thesis
    by (simp add: read_data_def read_body_def fwf_yields_def)
qed

end
